theory Spec2Isabelle
  imports
    Main
    "HOL-Library.AList"
    "HOL-Library.Char_ord"
    "HOL-Library.List_Lexorder"
begin

section \<open>Python values\<close>

text \<open>
  Python strings are modelled as \<^typ>\<open>string\<close>, read as the UTF-8 bytes of the text:
  byte-wise lexicographic order (\<open>List_Lexorder\<close> over \<open>Char_ord\<close>) is the order of the
  code points, which is what \<^verbatim>\<open><\<close> on \<^verbatim>\<open>str\<close> computes.

  The job request of \<^verbatim>\<open>_ai_platform_job_spec\<close> is a nested \<^verbatim>\<open>dict\<close>. A dict is
  an association list in insertion order, so that a key that is present with the value
  \<^verbatim>\<open>None\<close> differs from a key that is absent.
\<close>

datatype pyval =
    PNone
  | PStr string
  | PInt int
  | PList "pyval list"
  | PDict "(string \<times> pyval) list"

text \<open>An \<^verbatim>\<open>Optional[str]\<close> as a value: \<^verbatim>\<open>None\<close> or the string.\<close>

fun py_opt_str :: "string option \<Rightarrow> pyval" where
  "py_opt_str None = PNone"
| "py_opt_str (Some s) = PStr s"

text \<open>\<^verbatim>\<open>d[k]\<close> as a lookup; \<open>None\<close>: the key is absent.\<close>

fun getitem :: "pyval \<Rightarrow> string \<Rightarrow> pyval option" where
  "getitem (PDict kvs) k = map_of kvs k"
| "getitem d k = None"

text \<open>\<^verbatim>\<open>d[k] = v\<close>: replaces the value of a present key in place, appends a new key.\<close>

fun setitem :: "pyval \<Rightarrow> string \<Rightarrow> pyval \<Rightarrow> pyval" where
  "setitem (PDict kvs) k v = PDict (AList.update k v kvs)"
| "setitem d k v = d"

text \<open>
  \<^verbatim>\<open>d[k1][k2] = v\<close>: the inner dict is shared with \<open>d\<close>, so the assignment shows in
  \<open>d\<close>. The source only does this on a dict literal that holds \<open>k1\<close>.
\<close>

definition setitem2 :: "pyval \<Rightarrow> string \<Rightarrow> string \<Rightarrow> pyval \<Rightarrow> pyval" where
  "setitem2 d k1 k2 v =
     (case getitem d k1 of
        None \<Rightarrow> d
      | Some inner \<Rightarrow> setitem d k1 (setitem inner k2 v))"

text \<open>\<^verbatim>\<open>d[k1][k2]\<close> as a lookup.\<close>

definition getitem2 :: "pyval \<Rightarrow> string \<Rightarrow> string \<Rightarrow> pyval option" where
  "getitem2 d k1 k2 =
     (case getitem d k1 of
        None \<Rightarrow> None
      | Some inner \<Rightarrow> getitem inner k2)"

definition has_key2 :: "pyval \<Rightarrow> string \<Rightarrow> string \<Rightarrow> bool" where
  "has_key2 d k1 k2 = (getitem2 d k1 k2 \<noteq> None)"


section \<open>Data model of \<^verbatim>\<open>bionic/aip/task.py\<close>\<close>

text \<open>
  Names that start with an underscore in the source (\<^verbatim>\<open>_stage\<close>,
  \<^verbatim>\<open>_get_state_and_error\<close>, \<^verbatim>\<open>_ai_platform_job_spec\<close>, \<^verbatim>\<open>_comparison_key\<close>) are
  written without it; the field \<^verbatim>\<open>function\<close> of a task is \<open>function'\<close>.

  Exceptions, as values. \<open>ImportError\<close>, \<open>StoreError\<close>, \<open>PickleError\<close> and \<open>ClientError\<close>
  come from the collaborators; \<open>OtherError\<close> is any exception raised by code of the caller
  that the program runs, such as the \<^verbatim>\<open>__repr__\<close> of a value it formats.
\<close>

datatype exn =
    AipError string
  | KeyError string
  | ImportError string
  | StoreError string
  | PickleError string
  | ClientError string
  | OtherError string

record TaskConfig =
  machine :: string
  worker_count :: "int option"
  worker_machine :: "string option"

record Config =
  uuid :: string
  image_uri :: string
  project_name :: string
  account :: "string option"
  network :: "string option"

text \<open>The payload \<^verbatim>\<open>function: Callable\<close> is opaque: a type parameter.\<close>

record 'f Task =
  name :: string
  function' :: 'f
  config :: Config
  task_config :: TaskConfig

text \<open>
  The classes are declared with \<^verbatim>\<open>@attr.s(auto_attribs=True, frozen=True)\<close> and no
  validator: the generated \<^verbatim>\<open>__init__\<close> stores its arguments, with \<^verbatim>\<open>None\<close> as
  the default of the optional ones, and raises nothing.
\<close>

definition TaskConfig_init :: "string \<Rightarrow> int option \<Rightarrow> string option \<Rightarrow> exn + TaskConfig" where
  "TaskConfig_init m wc wm = Inr \<lparr>machine = m, worker_count = wc, worker_machine = wm\<rparr>"

definition Task_init :: "string \<Rightarrow> 'f \<Rightarrow> Config \<Rightarrow> TaskConfig \<Rightarrow> exn + 'f Task" where
  "Task_init n f c tc = Inr \<lparr>name = n, function' = f, config = c, task_config = tc\<rparr>"

definition job_id :: "'f Task \<Rightarrow> string" where
  "job_id self = uuid (config self) @ ''_'' @ name self"

definition inputs_uri :: "'f Task \<Rightarrow> string" where
  "inputs_uri self =
     ''gs://'' @ project_name (config self) @ ''/bionic/'' @ uuid (config self) @ ''/''
       @ name self @ ''-inputs.cloudpickle''"

definition output_uri :: "'f Task \<Rightarrow> string" where
  "output_uri self =
     ''gs://'' @ project_name (config self) @ ''/bionic/'' @ uuid (config self) @ ''/''
       @ name self @ ''-output.cloudpickle''"

text \<open>Conversion from the task data model to a job request on AI Platform.\<close>

definition ai_platform_job_spec :: "'f Task \<Rightarrow> pyval" where
  "ai_platform_job_spec self =
     (let output = PDict
            [(''jobId'', PStr (job_id self)),
             (''labels'', PDict [(''job'', PStr (uuid (config self)))]),
             (''trainingInput'', PDict
                [(''serviceAccount'', py_opt_str (account (config self))),
                 (''masterType'', PStr (machine (task_config self))),
                 (''masterConfig'', PDict [(''imageUri'', PStr (image_uri (config self)))]),
                 (''args'', PList [PStr ''python'', PStr ''-m'', PStr ''bionic.aip.main'',
                                   PStr (inputs_uri self)]),
                 (''packageUris'', PList []),
                 (''region'', PStr ''us-west1''),
                 (''pythonModule'', PStr ''''),
                 (''scaleTier'', PStr ''CUSTOM'')])];
          output =
            (if network (config self) \<noteq> None
             then setitem2 output ''trainingInput'' ''network''
                    (py_opt_str (network (config self)))
             else output);
          output =
            (case worker_count (task_config self) of
               None \<Rightarrow> output
             | Some n \<Rightarrow>
                 if n > 0
                 then
                   (let output = setitem2 output ''trainingInput'' ''workerCount'' (PInt n);
                        output = setitem2 output ''trainingInput'' ''workerType''
                                   (py_opt_str (worker_machine (task_config self)));
                        output = setitem2 output ''trainingInput'' ''workerConfig''
                                   (PDict [(''imageUri'', PStr (image_uri (config self)))])
                    in output)
                 else output)
      in output)"

text \<open>The field \<open>k\<close> of the \<^verbatim>\<open>trainingInput\<close> block of a job request.\<close>

definition training_input :: "pyval \<Rightarrow> string \<Rightarrow> pyval option" where
  "training_input spec k = getitem2 spec ''trainingInput'' k"



section \<open>Job states\<close>

text \<open>
  Modelled from the spec: \<^verbatim>\<open>bionic/aip/state.py\<close> (the enum \<^verbatim>\<open>State\<close>, its method
  \<^verbatim>\<open>is_executing\<close> and the exception \<^verbatim>\<open>AipError\<close>) is not among the sources. The spec
  has one executing superstate that covers queued, preparing and running, and terminal
  states that include SUCCEEDED and failure and cancellation states; a state is terminal
  iff it is not executing.
\<close>

datatype State = QUEUED | PREPARING | RUNNING | SUCCEEDED | FAILED | CANCELLED

text \<open>Modelled from the spec: \<^verbatim>\<open>State.is_executing\<close>, the executing superstate.\<close>

fun is_executing :: "State \<Rightarrow> bool" where
  "is_executing QUEUED = True"
| "is_executing PREPARING = True"
| "is_executing RUNNING = True"
| "is_executing SUCCEEDED = False"
| "is_executing FAILED = False"
| "is_executing CANCELLED = False"

text \<open>
  Modelled from the spec: \<^verbatim>\<open>State[name]\<close>, the member of the enum with that name;
  \<open>None\<close> is the \<^verbatim>\<open>KeyError\<close> of a name that the enum does not have.
\<close>

definition State_of_name :: "string \<Rightarrow> State option" where
  "State_of_name s =
     map_of [(''QUEUED'', QUEUED), (''PREPARING'', PREPARING), (''RUNNING'', RUNNING),
             (''SUCCEEDED'', SUCCEEDED), (''FAILED'', FAILED), (''CANCELLED'', CANCELLED)] s"


section \<open>The collaborators: object store, job service, codec, clock\<close>

text \<open>
  \<^verbatim>\<open>submit\<close> and \<^verbatim>\<open>wait_for_results\<close> act on two objects handed in by the caller,
  \<^verbatim>\<open>gcs_fs\<close> and \<^verbatim>\<open>aip_client\<close>, and on the libraries \<^verbatim>\<open>cloudpickle\<close>, \<^verbatim>\<open>pickle\<close> and
  \<^verbatim>\<open>time\<close>. Every call on them is an event; the world holds the events so far, in order,
  and the blobs of the object store.
\<close>

type_synonym bytes = string

datatype event =
    GcsOpen string string
  | JobsCreate pyval string
  | JobsGet string
  | Sleep nat

text \<open>
  \<open>GcsOpen path mode\<close> is \<^verbatim>\<open>gcs_fs.open(path, mode)\<close>;
  \<open>JobsCreate body parent\<close> is \<^verbatim>\<open>projects().jobs().create(body, parent).execute()\<close>;
  \<open>JobsGet name\<close> is \<^verbatim>\<open>projects().jobs().get(name).execute()\<close>;
  \<open>Sleep n\<close> is \<^verbatim>\<open>time.sleep(n)\<close>.
\<close>

record world =
  gcs :: "string \<rightharpoonup> bytes"
  trace :: "event list"

text \<open>The response of the job service to a get: a dict of string fields.\<close>

type_synonym response = "(string \<times> string) list"

text \<open>
  What the collaborators answer is not decided by the code: it is a parameter. Each
  answer may depend on the events so far.
  \<^item> \<open>import_cloudpickle\<close>: the exception of
    \<^verbatim>\<open>import_optional_dependency("cloudpickle")\<close>, if it raises;
  \<^item> \<open>gcs_open_fault\<close>: the exception of \<^verbatim>\<open>gcs_fs.open(path, mode)\<close>, if the store
    raises (unreachable, permission denied); opening a path without a blob for reading
    raises in any case;
  \<^item> \<open>cloudpickle_dump\<close>: the bytes that \<^verbatim>\<open>cloudpickle.dump(task, f)\<close> writes to the
    file, and its exception if it raises after writing them; leaving the \<^verbatim>\<open>with\<close> block
    closes the file, which stores the bytes written;
  \<^item> \<open>pickle_load\<close>: \<^verbatim>\<open>pickle.load(f)\<close> on the bytes of a blob;
  \<^item> \<open>create_execute\<close>: the exception of the create request, if the service rejects it;
  \<^item> \<open>get_execute\<close>: the response to a get request, or its exception;
  \<^item> \<open>repr_function\<close>: \<^verbatim>\<open>repr\<close> of the payload of a task, or the exception that its
    \<^verbatim>\<open>__repr__\<close> raises.
\<close>

record ('f, 'v) env =
  import_cloudpickle :: "exn option"
  gcs_open_fault :: "event list \<Rightarrow> string \<Rightarrow> string \<Rightarrow> exn option"
  cloudpickle_dump :: "'f Task \<Rightarrow> bytes \<times> exn option"
  pickle_load :: "bytes \<Rightarrow> exn + 'v"
  create_execute :: "event list \<Rightarrow> pyval \<Rightarrow> string \<Rightarrow> exn option"
  get_execute :: "event list \<Rightarrow> string \<Rightarrow> exn + response"
  repr_function :: "'f \<Rightarrow> exn + string"

definition emit :: "event \<Rightarrow> world \<Rightarrow> world" where
  "emit e w = w\<lparr>trace := trace w @ [e]\<rparr>"

text \<open>\<^verbatim>\<open>str(error)\<close> on the optional error message.\<close>

fun py_str :: "string option \<Rightarrow> string" where
  "py_str None = ''None''"
| "py_str (Some s) = s"


section \<open>Staging, submission, polling and result retrieval\<close>

text \<open>
  The \<^verbatim>\<open>logging.info\<close> calls are not events: the log is none of the collaborators. Their
  messages are f-strings, evaluated before the call, and an f-string raises when the
  \<^verbatim>\<open>repr\<close> or \<^verbatim>\<open>str\<close> of a value it formats raises. The messages of \<^verbatim>\<open>_stage\<close> and
  \<^verbatim>\<open>wait_for_results\<close> format strings and a state only. The message of \<^verbatim>\<open>submit\<close>,
  \<^verbatim>\<open>f"Submitting {self.config.project_name}: {self}"\<close>, formats the task: that runs the
  \<^verbatim>\<open>__repr__\<close> that attrs generates, which takes \<^verbatim>\<open>repr\<close> of every field. The fields of
  the two configurations and the name are strings, \<^verbatim>\<open>None\<close> or an int, whose \<^verbatim>\<open>repr\<close>
  returns; \<^verbatim>\<open>repr\<close> of the payload is \<open>repr_function\<close> and may raise. The text goes to
  the log only, so the model keeps the exception of the message, if there is one.
\<close>

definition submitting_message_raises :: "('f, 'v) env \<Rightarrow> 'f Task \<Rightarrow> exn option" where
  "submitting_message_raises env self =
     (case repr_function env (function' self) of
        Inl e \<Rightarrow> Some e
      | Inr shown \<Rightarrow> None)"

definition stage :: "('f, 'v) env \<Rightarrow> 'f Task \<Rightarrow> world \<Rightarrow> (exn + unit) \<times> world" where
  "stage env self w =
     (case import_cloudpickle env of
        Some e \<Rightarrow> (Inl e, w)
      | None \<Rightarrow>
          (let path = inputs_uri self;
               w1 = emit (GcsOpen path ''wb'') w
           in case gcs_open_fault env (trace w) path ''wb'' of
                Some e \<Rightarrow> (Inl e, w1)
              | None \<Rightarrow>
                  (case cloudpickle_dump env self of
                     (data, Some e) \<Rightarrow> (Inl e, w1\<lparr>gcs := (gcs w1)(path \<mapsto> data)\<rparr>)
                   | (data, None) \<Rightarrow> (Inr (), w1\<lparr>gcs := (gcs w1)(path \<mapsto> data)\<rparr>))))"

definition submit :: "('f, 'v) env \<Rightarrow> 'f Task \<Rightarrow> world \<Rightarrow> (exn + unit) \<times> world" where
  "submit env self w =
     (case stage env self w of
        (Inl e, w1) \<Rightarrow> (Inl e, w1)
      | (Inr u, w1) \<Rightarrow>
          (let spec = ai_platform_job_spec self
           in case submitting_message_raises env self of
                Some e \<Rightarrow> (Inl e, w1)
              | None \<Rightarrow>
                  (let parent = ''projects/'' @ project_name (config self);
                       w2 = emit (JobsCreate spec parent) w1
                   in case create_execute env (trace w1) spec parent of
                        Some e \<Rightarrow> (Inl e, w2)
                      | None \<Rightarrow> (Inr (), w2))))"

text \<open>The name under which the job service knows the job of a task.\<close>

definition job_name :: "'f Task \<Rightarrow> string" where
  "job_name self = ''projects/'' @ project_name (config self) @ ''/jobs/'' @ job_id self"

definition get_state_and_error ::
  "('f, 'v) env \<Rightarrow> 'f Task \<Rightarrow> world \<Rightarrow> (exn + State \<times> string option) \<times> world" where
  "get_state_and_error env self w =
     (let w1 = emit (JobsGet (job_name self)) w
      in case get_execute env (trace w) (job_name self) of
           Inl e \<Rightarrow> (Inl e, w1)
         | Inr response \<Rightarrow>
             (case map_of response ''state'' of
                None \<Rightarrow> (Inl (KeyError ''state''), w1)
              | Some s \<Rightarrow>
                  (case State_of_name s of
                     None \<Rightarrow> (Inl (KeyError s), w1)
                   | Some state \<Rightarrow> (Inr (state, map_of response ''errorMessage''), w1))))"

text \<open>
  The \<^verbatim>\<open>while state.is_executing()\<close> loop of \<^verbatim>\<open>wait_for_results\<close>. The job service
  may report an executing state for ever, and then the loop does not return: that is the
  value \<open>None\<close>.
\<close>

partial_function (option) wait_loop ::
  "('f, 'v) env \<Rightarrow> 'f Task \<Rightarrow> State \<times> string option \<Rightarrow> world
     \<Rightarrow> ((exn + State \<times> string option) \<times> world) option" where
  "wait_loop env self se w =
     (if is_executing (fst se)
      then
        (case get_state_and_error env self (emit (Sleep 10) w) of
           (Inl e, w1) \<Rightarrow> Some (Inl e, w1)
         | (Inr se1, w1) \<Rightarrow> wait_loop env self se1 w1)
      else Some (Inr se, w))"

text \<open>
  Result retrieval, the last two lines of \<^verbatim>\<open>wait_for_results\<close>: one
  \<^verbatim>\<open>gcs_fs.open(self.output_uri, "rb")\<close> and \<^verbatim>\<open>pickle.load\<close> on what it holds.
\<close>

definition read_output :: "('f, 'v) env \<Rightarrow> 'f Task \<Rightarrow> world \<Rightarrow> (exn + 'v) \<times> world" where
  "read_output env self w =
     (let path = output_uri self;
          w1 = emit (GcsOpen path ''rb'') w
      in case gcs_open_fault env (trace w) path ''rb'' of
           Some e \<Rightarrow> (Inl e, w1)
         | None \<Rightarrow>
             (case gcs w path of
                None \<Rightarrow> (Inl (StoreError path), w1)
              | Some data \<Rightarrow> (pickle_load env data, w1)))"

definition wait_for_results ::
  "('f, 'v) env \<Rightarrow> 'f Task \<Rightarrow> world \<Rightarrow> ((exn + 'v) \<times> world) option" where
  "wait_for_results env self w =
     (case get_state_and_error env self w of
        (Inl e, w1) \<Rightarrow> Some (Inl e, w1)
      | (Inr se, w1) \<Rightarrow>
          (case wait_loop env self se w1 of
             None \<Rightarrow> None
           | Some (Inl e, w2) \<Rightarrow> Some (Inl e, w2)
           | Some (Inr (state, error), w2) \<Rightarrow>
               if state \<noteq> SUCCEEDED
               then Some (Inl (AipError (job_id self @ '': '' @ py_str error)), w2)
               else Some (read_output env self w2)))"


section \<open>Cache entries of \<^verbatim>\<open>bionic/cache_api.py\<close>\<close>

text \<open>
  An inventory item as \<^verbatim>\<open>CacheEntry.__init__\<close> reads it. The cache handed to the entry
  is opaque: a type parameter.
\<close>

record Inventory =
  inventory_tier :: string

record InventoryItem =
  abs_metadata_url :: string
  abs_artifact_url :: string
  descriptor :: string
  inventory :: Inventory

record 'c CacheEntry =
  entry_cache :: 'c
  comparison_key :: string
  tier :: string
  artifact_url :: string
  metadata_url :: string
  entry_descriptor :: string
  entry_inventory :: Inventory

definition CacheEntry_init :: "'c \<Rightarrow> InventoryItem \<Rightarrow> 'c CacheEntry" where
  "CacheEntry_init c inv_item =
     \<lparr>entry_cache = c,
      comparison_key = abs_metadata_url inv_item,
      tier = inventory_tier (inventory inv_item),
      artifact_url = abs_artifact_url inv_item,
      metadata_url = abs_metadata_url inv_item,
      entry_descriptor = descriptor inv_item,
      entry_inventory = inventory inv_item\<rparr>"

text \<open>
  The other operand of a comparison is any Python value: a cache entry or not
  (\<^verbatim>\<open>isinstance(other, CacheEntry)\<close>).
\<close>

datatype ('c, 'a) pyobj = Entry "'c CacheEntry" | NonEntry 'a

text \<open>
  The builtins \<^verbatim>\<open>hash\<close> and \<^verbatim>\<open>repr\<close> are parameters: \<open>hash_str\<close> is \<^verbatim>\<open>hash\<close> on
  a string (one function during a run of the interpreter), \<open>repr_str\<close> is \<^verbatim>\<open>repr\<close> on a
  string, \<open>repr_obj\<close> is \<^verbatim>\<open>repr\<close> on a value that is not a cache entry: its text, or
  the exception that the \<^verbatim>\<open>__repr__\<close> of the value raises.
\<close>

record 'a builtins =
  hash_str :: "string \<Rightarrow> int"
  repr_str :: "string \<Rightarrow> string"
  repr_obj :: "'a \<Rightarrow> exn + string"

definition CacheEntry_repr :: "'a builtins \<Rightarrow> 'c CacheEntry \<Rightarrow> string" where
  "CacheEntry_repr b self = ''CacheEntry(metadata_url='' @ repr_str b (metadata_url self) @ '')''"

definition CacheEntry_hash :: "'a builtins \<Rightarrow> 'c CacheEntry \<Rightarrow> int" where
  "CacheEntry_hash b self = hash_str b (comparison_key self)"

fun CacheEntry_eq :: "'c CacheEntry \<Rightarrow> ('c, 'a) pyobj \<Rightarrow> bool" where
  "CacheEntry_eq self (NonEntry x) = False"
| "CacheEntry_eq self (Entry other) = (comparison_key self = comparison_key other)"

text \<open>
  \<^verbatim>\<open>__lt__\<close> returns a bool, or it returns (it does not raise) a \<^verbatim>\<open>TypeError\<close> object
  with its message. The message is the f-string
  \<^verbatim>\<open>f"Can't compare {self!r} with non-CacheEntry {other!r}"\<close>, evaluated before the
  \<^verbatim>\<open>return\<close>: when \<^verbatim>\<open>repr(other)\<close> raises, \<^verbatim>\<open>__lt__\<close> raises that exception.
\<close>

datatype lt_result = LtBool bool | LtTypeError string

fun CacheEntry_lt ::
  "'a builtins \<Rightarrow> 'c CacheEntry \<Rightarrow> ('c, 'a) pyobj \<Rightarrow> exn + lt_result" where
  "CacheEntry_lt b self (NonEntry x) =
     (case repr_obj b x of
        Inl e \<Rightarrow> Inl e
      | Inr shown \<Rightarrow>
          Inr (LtTypeError (''Can't compare '' @ CacheEntry_repr b self
                              @ '' with non-CacheEntry '' @ shown)))"
| "CacheEntry_lt b self (Entry other) =
     Inr (LtBool (comparison_key self < comparison_key other))"



section \<open>Vocabulary of the properties\<close>

text \<open>The \<^verbatim>\<open>args\<close> list of a job request.\<close>

definition spec_args :: "pyval \<Rightarrow> pyval list" where
  "spec_args spec = (case training_input spec ''args'' of Some (PList xs) \<Rightarrow> xs | _ \<Rightarrow> [])"

text \<open>The state and the error message that a response reports.\<close>

definition response_state :: "response \<Rightarrow> State option" where
  "response_state r = (case map_of r ''state'' of None \<Rightarrow> None | Some s \<Rightarrow> State_of_name s)"

definition response_error :: "response \<Rightarrow> string option" where
  "response_error r = map_of r ''errorMessage''"

text \<open>
  \<open>describes env nm tr rs\<close>: from the events \<open>tr\<close> on, successive get requests for the job
  \<open>nm\<close>, with a sleep of 10 after each, are answered by the responses \<open>rs\<close>, in order.
\<close>

fun describes :: "('f, 'v) env \<Rightarrow> string \<Rightarrow> event list \<Rightarrow> response list \<Rightarrow> bool" where
  "describes env nm tr [] = True"
| "describes env nm tr (r # rs) =
     (get_execute env tr nm = Inr r \<and> describes env nm (tr @ [JobsGet nm, Sleep 10]) rs)"

text \<open>The events of \<open>n\<close> further rounds of the polling loop: a sleep of 10, then a get.\<close>

fun repolls :: "string \<Rightarrow> nat \<Rightarrow> event list" where
  "repolls nm 0 = []"
| "repolls nm (Suc n) = Sleep 10 # JobsGet nm # repolls nm n"

fun is_JobsGet :: "event \<Rightarrow> bool" where
  "is_JobsGet (JobsGet nm) = True"
| "is_JobsGet e = False"

fun is_GcsOpen :: "event \<Rightarrow> bool" where
  "is_GcsOpen (GcsOpen p m) = True"
| "is_GcsOpen e = False"

fun is_JobsCreate :: "event \<Rightarrow> bool" where
  "is_JobsCreate (JobsCreate b p) = True"
| "is_JobsCreate e = False"


section \<open>Example inputs\<close>

definition example_config :: Config where
  "example_config =
     \<lparr>uuid = ''u1'', image_uri = ''gcr.io/proj/img'', project_name = ''proj'',
      account = None, network = None\<rparr>"

definition networked_config :: Config where
  "networked_config =
     \<lparr>uuid = ''u1'', image_uri = ''gcr.io/proj/img'', project_name = ''proj'',
      account = Some ''sa@proj'', network = Some ''vpc0''\<rparr>"

definition single_task :: "unit Task" where
  "single_task =
     \<lparr>name = ''t'', function' = (), config = example_config,
      task_config = \<lparr>machine = ''n1-standard-4'', worker_count = None, worker_machine = None\<rparr>\<rparr>"

definition zero_worker_task :: "unit Task" where
  "zero_worker_task =
     \<lparr>name = ''t'', function' = (), config = example_config,
      task_config = \<lparr>machine = ''n1-standard-4'', worker_count = Some 0,
                     worker_machine = Some ''n1-standard-8''\<rparr>\<rparr>"

definition cluster_task :: "unit Task" where
  "cluster_task =
     \<lparr>name = ''t'', function' = (), config = networked_config,
      task_config = \<lparr>machine = ''n1-standard-4'', worker_count = Some 2,
                     worker_machine = Some ''n1-standard-8''\<rparr>\<rparr>"

definition unshaped_task :: "unit Task" where
  "unshaped_task =
     \<lparr>name = ''t'', function' = (), config = example_config,
      task_config = \<lparr>machine = ''n1-standard-4'', worker_count = Some 2,
                     worker_machine = None\<rparr>\<rparr>"

text \<open>
  A job service that answers the successive get requests with the responses of a script
  (and raises once the script is used up), beside collaborators that do not fail; the
  codec is the identity on bytes.
\<close>

definition scripted_env :: "response list \<Rightarrow> (unit, bytes) env" where
  "scripted_env rs =
     \<lparr>import_cloudpickle = None,
      gcs_open_fault = (\<lambda>tr path mode. None),
      cloudpickle_dump = (\<lambda>t. (''pickled:'' @ name t, None)),
      pickle_load = (\<lambda>data. Inr data),
      create_execute = (\<lambda>tr body parent. None),
      get_execute = (\<lambda>tr nm.
        let i = length (filter is_JobsGet tr)
        in if i < length rs then Inr (rs ! i) else Inl (ClientError ''no response'')),
      repr_function = (\<lambda>f. Inr ''<function>'')\<rparr>"




definition empty_world :: world where
  "empty_world = \<lparr>gcs = Map.empty, trace = []\<rparr>"

definition output_world :: world where
  "output_world =
     \<lparr>gcs = [''gs://proj/bionic/u1/t-output.cloudpickle'' \<mapsto> ''result''], trace = []\<rparr>"

definition running_response :: response where
  "running_response = [(''state'', ''RUNNING'')]"

definition succeeded_response :: response where
  "succeeded_response = [(''state'', ''SUCCEEDED'')]"

definition failed_oom_response :: response where
  "failed_oom_response = [(''state'', ''FAILED''), (''errorMessage'', ''oom'')]"

definition item_a :: InventoryItem where
  "item_a =
     \<lparr>abs_metadata_url = ''a'', abs_artifact_url = ''file:///x'', descriptor = ''zeta'',
      inventory = \<lparr>inventory_tier = ''local''\<rparr>\<rparr>"

definition item_a_cloud :: InventoryItem where
  "item_a_cloud =
     \<lparr>abs_metadata_url = ''a'', abs_artifact_url = ''gs://b/y'', descriptor = ''alpha'',
      inventory = \<lparr>inventory_tier = ''cloud''\<rparr>\<rparr>"

definition item_b :: InventoryItem where
  "item_b =
     \<lparr>abs_metadata_url = ''b'', abs_artifact_url = ''file:///a'', descriptor = ''alpha'',
      inventory = \<lparr>inventory_tier = ''cloud''\<rparr>\<rparr>"

text \<open>
  Two values that are not cache entries: one whose \<^verbatim>\<open>repr\<close> is its text, one whose
  \<^verbatim>\<open>__repr__\<close> raises; and builtins over them.
\<close>

datatype sample_value = Printable string | Unprintable

definition plain_builtins :: "sample_value builtins" where
  "plain_builtins =
     \<lparr>hash_str = (\<lambda>s. int (length s)),
      repr_str = (\<lambda>s. s),
      repr_obj = (\<lambda>v. case v of
                          Printable s \<Rightarrow> Inr s
                        | Unprintable \<Rightarrow> Inl (OtherError ''repr''))\<rparr>"


section \<open>The job request\<close>

lemma training_input_workerCount:
  "training_input (ai_platform_job_spec self) ''workerCount'' =
     (case worker_count (task_config self) of
        None \<Rightarrow> None
      | Some n \<Rightarrow> if n > 0 then Some (PInt n) else None)"
  by (simp add: ai_platform_job_spec_def Let_def training_input_def getitem2_def setitem2_def
        update_conv' split: option.splits)

lemma training_input_workerType:
  "training_input (ai_platform_job_spec self) ''workerType'' =
     (case worker_count (task_config self) of
        None \<Rightarrow> None
      | Some n \<Rightarrow> if n > 0 then Some (py_opt_str (worker_machine (task_config self))) else None)"
  by (simp add: ai_platform_job_spec_def Let_def training_input_def getitem2_def setitem2_def
        update_conv' split: option.splits)

lemma training_input_workerConfig:
  "training_input (ai_platform_job_spec self) ''workerConfig'' =
     (case worker_count (task_config self) of
        None \<Rightarrow> None
      | Some n \<Rightarrow>
          if n > 0 then Some (PDict [(''imageUri'', PStr (image_uri (config self)))]) else None)"
  by (simp add: ai_platform_job_spec_def Let_def training_input_def getitem2_def setitem2_def
        update_conv' split: option.splits)

lemma training_input_network:
  "training_input (ai_platform_job_spec self) ''network'' = map_option PStr (network (config self))"
  by (cases "network (config self)")
     (simp_all add: ai_platform_job_spec_def Let_def training_input_def getitem2_def setitem2_def
        update_conv' split: option.splits)

lemma training_input_serviceAccount:
  "training_input (ai_platform_job_spec self) ''serviceAccount'' =
     Some (py_opt_str (account (config self)))"
  by (simp add: ai_platform_job_spec_def Let_def training_input_def getitem2_def setitem2_def
        update_conv' split: option.splits)

lemma training_input_args:
  "training_input (ai_platform_job_spec self) ''args'' =
     Some (PList [PStr ''python'', PStr ''-m'', PStr ''bionic.aip.main'', PStr (inputs_uri self)])"
  by (simp add: ai_platform_job_spec_def Let_def training_input_def getitem2_def setitem2_def
        update_conv' split: option.splits)

lemma has_key2_training_input:
  "has_key2 spec ''trainingInput'' k = (training_input spec k \<noteq> None)"
  by (simp add: has_key2_def training_input_def)

text \<open>
  C1. When \<open>worker_count\<close> is positive and \<open>worker_machine\<close> is set, the job request has
  the worker block: \<open>workerCount\<close> is the count, \<open>workerType\<close> the worker machine,
  \<open>workerConfig\<close> the image of the configuration. When \<open>worker_count\<close> is \<open>None\<close> or not
  positive, none of the three keys is in the request.
\<close>

theorem job_spec_worker_block:
  "(worker_count (task_config self) = Some n \<and> n > 0
      \<and> worker_machine (task_config self) = Some m \<longrightarrow>
      training_input (ai_platform_job_spec self) ''workerCount'' = Some (PInt n)
    \<and> training_input (ai_platform_job_spec self) ''workerType'' = Some (PStr m)
    \<and> training_input (ai_platform_job_spec self) ''workerConfig''
        = Some (PDict [(''imageUri'', PStr (image_uri (config self)))]))
   \<and> (worker_count (task_config self) = None
        \<or> (\<exists>k. worker_count (task_config self) = Some k \<and> k \<le> 0) \<longrightarrow>
      \<not> has_key2 (ai_platform_job_spec self) ''trainingInput'' ''workerCount''
    \<and> \<not> has_key2 (ai_platform_job_spec self) ''trainingInput'' ''workerType''
    \<and> \<not> has_key2 (ai_platform_job_spec self) ''trainingInput'' ''workerConfig'')"
proof -
  have present: "training_input (ai_platform_job_spec self) ''workerCount'' = Some (PInt n)
      \<and> training_input (ai_platform_job_spec self) ''workerType'' = Some (PStr m)
      \<and> training_input (ai_platform_job_spec self) ''workerConfig''
          = Some (PDict [(''imageUri'', PStr (image_uri (config self)))])"
    if "worker_count (task_config self) = Some n" "n > 0"
       "worker_machine (task_config self) = Some m"
    using that
    by (simp add: training_input_workerCount training_input_workerType
          training_input_workerConfig)
  have absent: "\<not> has_key2 (ai_platform_job_spec self) ''trainingInput'' ''workerCount''
      \<and> \<not> has_key2 (ai_platform_job_spec self) ''trainingInput'' ''workerType''
      \<and> \<not> has_key2 (ai_platform_job_spec self) ''trainingInput'' ''workerConfig''"
    if "\<not> (\<exists>k. worker_count (task_config self) = Some k \<and> k > 0)"
    using that
    by (cases "worker_count (task_config self)")
       (simp_all add: has_key2_training_input training_input_workerCount
          training_input_workerType training_input_workerConfig)
  have "\<not> (\<exists>k. worker_count (task_config self) = Some k \<and> k > 0)"
    if "worker_count (task_config self) = None
        \<or> (\<exists>k. worker_count (task_config self) = Some k \<and> k \<le> 0)"
    using that by auto
  with present absent show ?thesis
    by blast
qed

theorem job_spec_worker_block_witness:
  "worker_count (task_config cluster_task) = Some 2
   \<and> worker_machine (task_config cluster_task) = Some ''n1-standard-8''
   \<and> training_input (ai_platform_job_spec cluster_task) ''workerCount'' = Some (PInt 2)
   \<and> training_input (ai_platform_job_spec cluster_task) ''workerType''
       = Some (PStr ''n1-standard-8'')
   \<and> training_input (ai_platform_job_spec cluster_task) ''workerConfig''
       = Some (PDict [(''imageUri'', PStr ''gcr.io/proj/img'')])
   \<and> worker_count (task_config single_task) = None
   \<and> \<not> has_key2 (ai_platform_job_spec single_task) ''trainingInput'' ''workerCount''
   \<and> \<not> has_key2 (ai_platform_job_spec single_task) ''trainingInput'' ''workerType''
   \<and> \<not> has_key2 (ai_platform_job_spec single_task) ''trainingInput'' ''workerConfig''
   \<and> worker_count (task_config zero_worker_task) = Some 0
   \<and> \<not> has_key2 (ai_platform_job_spec zero_worker_task) ''trainingInput'' ''workerCount''
   \<and> \<not> has_key2 (ai_platform_job_spec zero_worker_task) ''trainingInput'' ''workerType''
   \<and> \<not> has_key2 (ai_platform_job_spec zero_worker_task) ''trainingInput'' ''workerConfig''"
  using job_spec_worker_block [of cluster_task 2 "''n1-standard-8''"]
        job_spec_worker_block [of single_task]
        job_spec_worker_block [of zero_worker_task]
  by (simp add: cluster_task_def single_task_def zero_worker_task_def networked_config_def)

text \<open>
  C2, as the code has it. The \<open>network\<close> key is in the job request iff the
  \<open>network\<close> of the configuration is not \<open>None\<close>, and then holds it. The \<open>serviceAccount\<close>
  key is always in the request: it holds the \<open>account\<close> of the configuration, which is
  \<open>None\<close> when no account is set.
\<close>

theorem job_spec_network_and_account:
  "(has_key2 (ai_platform_job_spec self) ''trainingInput'' ''network''
      \<longleftrightarrow> network (config self) \<noteq> None)
   \<and> training_input (ai_platform_job_spec self) ''network''
       = map_option PStr (network (config self))
   \<and> has_key2 (ai_platform_job_spec self) ''trainingInput'' ''serviceAccount''
   \<and> training_input (ai_platform_job_spec self) ''serviceAccount''
       = Some (py_opt_str (account (config self)))"
  by (simp add: has_key2_training_input training_input_network training_input_serviceAccount)

theorem job_spec_network_and_account_witness:
  "has_key2 (ai_platform_job_spec cluster_task) ''trainingInput'' ''network''
   \<and> training_input (ai_platform_job_spec cluster_task) ''network'' = Some (PStr ''vpc0'')
   \<and> training_input (ai_platform_job_spec cluster_task) ''serviceAccount''
       = Some (PStr ''sa@proj'')
   \<and> \<not> has_key2 (ai_platform_job_spec single_task) ''trainingInput'' ''network''
   \<and> has_key2 (ai_platform_job_spec single_task) ''trainingInput'' ''serviceAccount''
   \<and> training_input (ai_platform_job_spec single_task) ''serviceAccount'' = Some PNone"
  using job_spec_network_and_account [of cluster_task]
        job_spec_network_and_account [of single_task]
  by (simp add: cluster_task_def single_task_def networked_config_def example_config_def)

text \<open>
  C2, as the spec states it, fails for the account: a task with no account has the
  \<open>serviceAccount\<close> key in its job request.
\<close>

theorem job_spec_account_counterexample:
  "account (config single_task) = None
   \<and> has_key2 (ai_platform_job_spec single_task) ''trainingInput'' ''serviceAccount''"
  by (simp add: has_key2_def getitem2_def ai_platform_job_spec_def single_task_def
        example_config_def)

text \<open>
  C6. \<open>job_id\<close> is the uuid, an underscore and the name; \<open>job_id\<close>, \<open>inputs_uri\<close> and
  \<open>output_uri\<close> are functions of the task alone (they take and return no world), and two
  tasks with the same uuid, name and project name have the same three strings, whatever
  their other fields.
\<close>

theorem identifiers_deterministic:
  "job_id self = uuid (config self) @ ''_'' @ name self
   \<and> (uuid (config self) = uuid (config other) \<and> name self = name other
        \<and> project_name (config self) = project_name (config other) \<longrightarrow>
      job_id self = job_id other \<and> inputs_uri self = inputs_uri other
        \<and> output_uri self = output_uri other)"
  by (simp add: job_id_def inputs_uri_def output_uri_def)

theorem identifiers_deterministic_witness:
  "uuid (config single_task) = uuid (config cluster_task)
   \<and> name single_task = name cluster_task
   \<and> project_name (config single_task) = project_name (config cluster_task)
   \<and> single_task \<noteq> cluster_task
   \<and> job_id single_task = ''u1_t''
   \<and> job_id single_task = job_id cluster_task
   \<and> inputs_uri single_task = inputs_uri cluster_task
   \<and> output_uri single_task = output_uri cluster_task"
proof -
  have same: "uuid (config single_task) = uuid (config cluster_task)
      \<and> name single_task = name cluster_task
      \<and> project_name (config single_task) = project_name (config cluster_task)"
    by (simp add: single_task_def cluster_task_def example_config_def networked_config_def)
  have differ: "single_task \<noteq> cluster_task"
    by (simp add: single_task_def cluster_task_def example_config_def networked_config_def)
  have "job_id single_task = uuid (config single_task) @ ''_'' @ name single_task"
    using identifiers_deterministic [of single_task cluster_task] by blast
  then have jid: "job_id single_task = ''u1_t''"
    by (simp add: single_task_def example_config_def)
  have "job_id single_task = job_id cluster_task
      \<and> inputs_uri single_task = inputs_uri cluster_task
      \<and> output_uri single_task = output_uri cluster_task"
    using identifiers_deterministic [of single_task cluster_task] same by blast
  with same differ jid show ?thesis
    by blast
qed

text \<open>
  C7, as the code has it. The \<open>args\<close> of the job request are four strings: the three of
  the fixed invocation \<^verbatim>\<open>python -m bionic.aip.main\<close>, then the inputs URI as its only
  argument.
\<close>

theorem job_spec_args:
  "spec_args (ai_platform_job_spec self)
     = map PStr [''python'', ''-m'', ''bionic.aip.main''] @ [PStr (inputs_uri self)]
   \<and> length (spec_args (ai_platform_job_spec self)) = 4"
  by (simp add: spec_args_def training_input_args)

text \<open>C7, as the spec states it, fails: the list has four elements, not three.\<close>

theorem job_spec_args_counterexample:
  "length (spec_args (ai_platform_job_spec single_task)) \<noteq> 3"
  by (simp add: spec_args_def training_input_def getitem2_def ai_platform_job_spec_def
        single_task_def example_config_def)


section \<open>Polling\<close>

lemma get_state_and_error_response:
  assumes "get_execute env (trace w) (job_name self) = Inr r"
      and "response_state r = Some s"
  shows "get_state_and_error env self w =
           (Inr (s, response_error r), w\<lparr>trace := trace w @ [JobsGet (job_name self)]\<rparr>)"
proof -
  from assms(2) obtain nm where "map_of r ''state'' = Some nm" "State_of_name nm = Some s"
    by (auto simp: response_state_def split: option.splits)
  with assms(1) show ?thesis
    by (simp add: get_state_and_error_def response_error_def emit_def)
qed

lemma wait_loop_terminal:
  "\<not> is_executing (fst se) \<Longrightarrow> wait_loop env self se w = Some (Inr se, w)"
  by (subst wait_loop.simps) simp

text \<open>
  The loop, entered with an executing state: while the responses report executing states
  it sleeps and asks again, and it leaves with the first response that reports a terminal
  state.
\<close>

lemma wait_loop_repolls:
  fixes r :: response
  assumes "is_executing (fst se)"
      and "describes env (job_name self) (trace w @ [Sleep 10]) (rs @ [r])"
      and "\<forall>x \<in> set rs. \<exists>s. response_state x = Some s \<and> is_executing s"
      and "response_state r = Some t" and "\<not> is_executing t"
  shows "wait_loop env self se w =
           Some (Inr (t, response_error r),
                 w\<lparr>trace := trace w @ repolls (job_name self) (Suc (length rs))\<rparr>)"
  using assms
proof (induction rs arbitrary: se w)
  case Nil
  let ?ws = "w\<lparr>trace := trace w @ [Sleep 10]\<rparr>"
  from Nil.prems(2) have g: "get_execute env (trace ?ws) (job_name self) = Inr r"
    by simp
  have step: "get_state_and_error env self (emit (Sleep 10) w) =
                (Inr (t, response_error r),
                 w\<lparr>trace := trace w @ [Sleep 10, JobsGet (job_name self)]\<rparr>)"
    using get_state_and_error_response [OF g Nil.prems(4)] by (simp add: emit_def)
  show ?case
    using Nil.prems(1,5)
    by (subst wait_loop.simps) (simp add: step wait_loop_terminal)
next
  case (Cons x xs)
  then obtain s where s: "response_state x = Some s" "is_executing s"
    by auto
  let ?ws = "w\<lparr>trace := trace w @ [Sleep 10]\<rparr>"
  let ?w1 = "w\<lparr>trace := trace w @ [Sleep 10, JobsGet (job_name self)]\<rparr>"
  from Cons.prems(2) have g: "get_execute env (trace ?ws) (job_name self) = Inr x"
    by simp
  have step: "get_state_and_error env self (emit (Sleep 10) w) = (Inr (s, response_error x), ?w1)"
    using get_state_and_error_response [OF g s(1)] by (simp add: emit_def)
  have d: "describes env (job_name self) (trace ?w1 @ [Sleep 10]) (xs @ [r])"
    using Cons.prems(2) by simp
  have ih: "wait_loop env self (s, response_error x) ?w1 =
              Some (Inr (t, response_error r),
                    ?w1\<lparr>trace := trace ?w1 @ repolls (job_name self) (Suc (length xs))\<rparr>)"
    using Cons.IH [of "(s, response_error x)" ?w1] s(2) d Cons.prems(3,4,5) by simp
  show ?case
    using Cons.prems(1)
    by (subst wait_loop.simps) (simp add: step ih)
qed

text \<open>
  \<^verbatim>\<open>wait_for_results\<close> on a job that reports \<open>length rs\<close> executing states and then a
  terminal one: it returns, after one get, \<open>length rs\<close> rounds of sleep and get, and the
  read of the output if the terminal state is SUCCEEDED.
\<close>

lemma wait_for_results_polls:
  fixes r :: response
  assumes "describes env (job_name self) (trace w) (rs @ [r])"
      and "\<forall>x \<in> set rs. \<exists>s. response_state x = Some s \<and> is_executing s"
      and "response_state r = Some t" and "\<not> is_executing t"
  shows "wait_for_results env self w =
           (let w' = w\<lparr>trace := trace w @ JobsGet (job_name self)
                                  # repolls (job_name self) (length rs)\<rparr>
            in if t \<noteq> SUCCEEDED
               then Some (Inl (AipError (job_id self @ '': '' @ py_str (response_error r))), w')
               else Some (read_output env self w'))"
proof (cases rs)
  case Nil
  with assms(1) have g: "get_execute env (trace w) (job_name self) = Inr r"
    by simp
  show ?thesis
    using assms(4) Nil
    by (simp add: wait_for_results_def get_state_and_error_response [OF g assms(3)]
          wait_loop_terminal)
next
  case (Cons x xs)
  with assms(2) obtain s where s: "response_state x = Some s" "is_executing s"
    by auto
  let ?w1 = "w\<lparr>trace := trace w @ [JobsGet (job_name self)]\<rparr>"
  from assms(1) Cons have g: "get_execute env (trace w) (job_name self) = Inr x"
    by simp
  have d: "describes env (job_name self) (trace ?w1 @ [Sleep 10]) (xs @ [r])"
    using assms(1) Cons by simp
  have ex: "\<forall>y \<in> set xs. \<exists>s. response_state y = Some s \<and> is_executing s"
    using assms(2) Cons by simp
  have loop: "wait_loop env self (s, response_error x) ?w1 =
                Some (Inr (t, response_error r),
                      ?w1\<lparr>trace := trace ?w1 @ repolls (job_name self) (Suc (length xs))\<rparr>)"
    using wait_loop_repolls [of "(s, response_error x)" env self ?w1 xs r t] s(2) d ex assms(3,4)
    by simp
  show ?thesis
    using Cons
    by (simp add: wait_for_results_def get_state_and_error_response [OF g s(1)] loop)
qed

lemma read_output_trace:
  "trace (snd (read_output env self w)) = trace w @ [GcsOpen (output_uri self) ''rb'']"
  by (simp add: read_output_def emit_def Let_def split: option.splits)

lemma filter_is_GcsOpen_repolls: "filter is_GcsOpen (repolls nm n) = []"
  by (induction n) simp_all

text \<open>
  C3. If successive gets report RUNNING, RUNNING, SUCCEEDED and the blob at \<open>output_uri\<close>
  exists, opens and deserialises to \<open>v\<close>, then \<open>wait_for_results\<close> returns \<open>v\<close> after
  exactly three gets with a sleep of 10 between them, followed by one read of
  \<open>output_uri\<close>. In general: if the gets report executing states \<open>rs\<close> and then a terminal
  state, \<open>wait_for_results\<close> returns after \<open>length rs + 1\<close> gets, with a sleep of 10 before
  each but the first, and asks no more after the terminal state.
\<close>

theorem wait_for_results_running_running_succeeded:
  "(describes env (job_name self) (trace w) [r1, r2, r3]
      \<and> response_state r1 = Some RUNNING \<and> response_state r2 = Some RUNNING
      \<and> response_state r3 = Some SUCCEEDED
      \<and> gcs_open_fault env
           (trace w @ [JobsGet (job_name self), Sleep 10, JobsGet (job_name self), Sleep 10,
                       JobsGet (job_name self)])
           (output_uri self) ''rb'' = None
      \<and> gcs w (output_uri self) = Some data \<and> pickle_load env data = Inr v \<longrightarrow>
    wait_for_results env self w =
      Some (Inr v,
            w\<lparr>trace := trace w @
               [JobsGet (job_name self), Sleep 10, JobsGet (job_name self), Sleep 10,
                JobsGet (job_name self), GcsOpen (output_uri self) ''rb'']\<rparr>))
   \<and> (describes env (job_name self) (trace w) (rs @ [r])
      \<and> (\<forall>x \<in> set rs. \<exists>s. response_state x = Some s \<and> is_executing s)
      \<and> response_state r = Some t \<and> \<not> is_executing t \<longrightarrow>
    (\<exists>res w'. wait_for_results env self w = Some (res, w')
       \<and> trace w' = trace w @ JobsGet (job_name self) # repolls (job_name self) (length rs)
                      @ (if t = SUCCEEDED then [GcsOpen (output_uri self) ''rb''] else [])))"
proof (intro conjI impI)
  assume a: "describes env (job_name self) (trace w) [r1, r2, r3]
      \<and> response_state r1 = Some RUNNING \<and> response_state r2 = Some RUNNING
      \<and> response_state r3 = Some SUCCEEDED
      \<and> gcs_open_fault env
           (trace w @ [JobsGet (job_name self), Sleep 10, JobsGet (job_name self), Sleep 10,
                       JobsGet (job_name self)])
           (output_uri self) ''rb'' = None
      \<and> gcs w (output_uri self) = Some data \<and> pickle_load env data = Inr v"
  have d: "describes env (job_name self) (trace w) ([r1, r2] @ [r3])"
    using a by simp
  have ex: "\<forall>x \<in> set [r1, r2]. \<exists>s. response_state x = Some s \<and> is_executing s"
    using a by simp
  have t: "response_state r3 = Some SUCCEEDED" "\<not> is_executing SUCCEEDED"
    using a by simp_all
  have two: "repolls (job_name self) (length [r1, r2]) =
               [Sleep 10, JobsGet (job_name self), Sleep 10, JobsGet (job_name self)]"
    by (simp add: numeral_2_eq_2)
  show "wait_for_results env self w =
      Some (Inr v,
            w\<lparr>trace := trace w @
               [JobsGet (job_name self), Sleep 10, JobsGet (job_name self), Sleep 10,
                JobsGet (job_name self), GcsOpen (output_uri self) ''rb'']\<rparr>)"
    unfolding wait_for_results_polls [OF d ex t] two
    using a by (simp add: read_output_def emit_def)
next
  assume b: "describes env (job_name self) (trace w) (rs @ [r])
      \<and> (\<forall>x \<in> set rs. \<exists>s. response_state x = Some s \<and> is_executing s)
      \<and> response_state r = Some t \<and> \<not> is_executing t"
  then have d: "describes env (job_name self) (trace w) (rs @ [r])"
    and ex: "\<forall>x \<in> set rs. \<exists>s. response_state x = Some s \<and> is_executing s"
    and t: "response_state r = Some t" "\<not> is_executing t"
    by simp_all
  show "\<exists>res w'. wait_for_results env self w = Some (res, w')
       \<and> trace w' = trace w @ JobsGet (job_name self) # repolls (job_name self) (length rs)
                      @ (if t = SUCCEEDED then [GcsOpen (output_uri self) ''rb''] else [])"
  proof (cases "t = SUCCEEDED")
    case True
    let ?w' = "w\<lparr>trace := trace w @ JobsGet (job_name self)
                           # repolls (job_name self) (length rs)\<rparr>"
    obtain res w1 where ro: "read_output env self ?w' = (res, w1)"
      by (cases "read_output env self ?w'")
    have "wait_for_results env self w = Some (res, w1)"
      using True ro by (simp add: wait_for_results_polls [OF d ex t])
    moreover have "trace w1 =
            trace w @ JobsGet (job_name self) # repolls (job_name self) (length rs)
              @ [GcsOpen (output_uri self) ''rb'']"
      using read_output_trace [of env self ?w'] ro by simp
    ultimately show ?thesis
      using True by simp
  next
    case False
    then show ?thesis
      by (simp add: wait_for_results_polls [OF d ex t])
  qed
qed

theorem wait_for_results_running_running_succeeded_witness:
  "describes (scripted_env [running_response, running_response, succeeded_response])
      (job_name single_task) (trace output_world)
      [running_response, running_response, succeeded_response]
   \<and> response_state running_response = Some RUNNING
   \<and> response_state succeeded_response = Some SUCCEEDED
   \<and> gcs output_world (output_uri single_task) = Some ''result''
   \<and> is_executing RUNNING \<and> \<not> is_executing SUCCEEDED
   \<and> wait_for_results (scripted_env [running_response, running_response, succeeded_response])
        single_task output_world =
      Some (Inr ''result'',
            output_world\<lparr>trace :=
               [JobsGet ''projects/proj/jobs/u1_t'', Sleep 10,
                JobsGet ''projects/proj/jobs/u1_t'', Sleep 10,
                JobsGet ''projects/proj/jobs/u1_t'',
                GcsOpen ''gs://proj/bionic/u1/t-output.cloudpickle'' ''rb'']\<rparr>)"
proof -
  let ?env = "scripted_env [running_response, running_response, succeeded_response]"
  have nm: "job_name single_task = ''projects/proj/jobs/u1_t''"
    by (simp add: job_name_def job_id_def single_task_def example_config_def)
  have out: "output_uri single_task = ''gs://proj/bionic/u1/t-output.cloudpickle''"
    by (simp add: output_uri_def single_task_def example_config_def)
  have tr: "trace output_world = []"
    by (simp add: output_world_def)
  have d: "describes ?env (job_name single_task) (trace output_world)
             [running_response, running_response, succeeded_response]"
    by (simp add: tr scripted_env_def)
  have st: "response_state running_response = Some RUNNING"
       "response_state succeeded_response = Some SUCCEEDED"
    by (simp_all add: response_state_def running_response_def succeeded_response_def
          State_of_name_def)
  have blob: "gcs output_world (output_uri single_task) = Some ''result''"
    by (simp add: out output_world_def)
  have nofault: "gcs_open_fault ?env
      (trace output_world @ [JobsGet (job_name single_task), Sleep 10,
         JobsGet (job_name single_task), Sleep 10, JobsGet (job_name single_task)])
      (output_uri single_task) ''rb'' = None"
    by (simp add: scripted_env_def)
  have load: "pickle_load ?env ''result'' = Inr ''result''"
    by (simp add: scripted_env_def)
  have "wait_for_results ?env single_task output_world =
      Some (Inr ''result'',
            output_world\<lparr>trace := trace output_world @
               [JobsGet (job_name single_task), Sleep 10, JobsGet (job_name single_task),
                Sleep 10, JobsGet (job_name single_task),
                GcsOpen (output_uri single_task) ''rb'']\<rparr>)"
    using wait_for_results_running_running_succeeded
            [of ?env single_task output_world running_response running_response
                succeeded_response "''result''" "''result''"]
          d st blob nofault load
    by blast
  then show ?thesis
    using d st blob by (simp add: nm out tr)
qed

text \<open>
  C4. If the gets report executing states and then a terminal state other than SUCCEEDED,
  \<open>wait_for_results\<close> raises \<open>AipError\<close> with the message \<open>job_id\<close>, a colon and a space,
  and \<^verbatim>\<open>str\<close> of the error message of the last response (the message itself when the
  service gave one); the events it adds are gets and sleeps only, so the store is neither
  opened nor changed.
\<close>

theorem wait_for_results_raises_AipError:
  fixes r :: response
  assumes "describes env (job_name self) (trace w) (rs @ [r])"
      and "\<forall>x \<in> set rs. \<exists>s. response_state x = Some s \<and> is_executing s"
      and "response_state r = Some t" and "\<not> is_executing t" and "t \<noteq> SUCCEEDED"
  shows "wait_for_results env self w =
           Some (Inl (AipError (job_id self @ '': '' @ py_str (response_error r))),
                 w\<lparr>trace := trace w @ JobsGet (job_name self)
                                  # repolls (job_name self) (length rs)\<rparr>)
         \<and> (\<forall>msg. response_error r = Some msg \<longrightarrow>
               py_str (response_error r) = msg)
         \<and> filter is_GcsOpen (JobsGet (job_name self) # repolls (job_name self) (length rs)) = []"
proof -
  have "wait_for_results env self w =
           Some (Inl (AipError (job_id self @ '': '' @ py_str (response_error r))),
                 w\<lparr>trace := trace w @ JobsGet (job_name self)
                                  # repolls (job_name self) (length rs)\<rparr>)"
    using assms(5) by (simp add: wait_for_results_polls [OF assms(1-4)])
  then show ?thesis
    by (simp add: filter_is_GcsOpen_repolls)
qed

theorem wait_for_results_raises_AipError_witness:
  "describes (scripted_env [running_response, failed_oom_response])
      (job_name single_task) (trace output_world) ([running_response] @ [failed_oom_response])
   \<and> response_state running_response = Some RUNNING \<and> is_executing RUNNING
   \<and> response_state failed_oom_response = Some FAILED \<and> \<not> is_executing FAILED
   \<and> response_error failed_oom_response = Some ''oom''
   \<and> wait_for_results (scripted_env [running_response, failed_oom_response])
        single_task output_world =
      Some (Inl (AipError ''u1_t: oom''),
            output_world\<lparr>trace :=
               [JobsGet ''projects/proj/jobs/u1_t'', Sleep 10,
                JobsGet ''projects/proj/jobs/u1_t'']\<rparr>)"
proof -
  let ?env = "scripted_env [running_response, failed_oom_response]"
  have nm: "job_name single_task = ''projects/proj/jobs/u1_t''"
    by (simp add: job_name_def job_id_def single_task_def example_config_def)
  have jid: "job_id single_task = ''u1_t''"
    by (simp add: job_id_def single_task_def example_config_def)
  have tr: "trace output_world = []"
    by (simp add: output_world_def)
  have d: "describes ?env (job_name single_task) (trace output_world)
             ([running_response] @ [failed_oom_response])"
    by (simp add: tr scripted_env_def)
  have st: "response_state running_response = Some RUNNING"
       "response_state failed_oom_response = Some FAILED"
    by (simp_all add: response_state_def running_response_def failed_oom_response_def
          State_of_name_def)
  have err: "response_error failed_oom_response = Some ''oom''"
    by (simp add: response_error_def failed_oom_response_def)
  have ex: "\<forall>x \<in> set [running_response]. \<exists>s. response_state x = Some s \<and> is_executing s"
    using st by simp
  have "wait_for_results ?env single_task output_world =
           Some (Inl (AipError (job_id single_task @ '': ''
                        @ py_str (response_error failed_oom_response))),
                 output_world\<lparr>trace := trace output_world @ JobsGet (job_name single_task)
                        # repolls (job_name single_task) (length [running_response])\<rparr>)"
    using wait_for_results_raises_AipError
            [of ?env single_task output_world "[running_response]" failed_oom_response FAILED]
          d ex st
    by simp
  then show ?thesis
    using d st err by (simp add: nm jid tr)
qed


section \<open>Submission\<close>



text \<open>What \<open>submit\<close> does once staging has returned, by the three ways it can go on.\<close>

lemma submit_after_stage:
  assumes "stage env self w = (Inr u, w1)"
  shows "submit env self w =
           (case submitting_message_raises env self of
              Some e \<Rightarrow> (Inl e, w1)
            | None \<Rightarrow>
                (case create_execute env (trace w1) (ai_platform_job_spec self)
                        (''projects/'' @ project_name (config self)) of
                   Some e \<Rightarrow> Inl e
                 | None \<Rightarrow> Inr (),
                 w1\<lparr>trace := trace w1 @ [JobsCreate (ai_platform_job_spec self)
                                            (''projects/'' @ project_name (config self))]\<rparr>))"
  using assms
  by (simp add: submit_def emit_def Let_def split: option.splits)



text \<open>
  C8, as the code has it. The constructors of \<open>TaskConfig\<close> and \<open>Task\<close> check nothing:
  they return the object for every combination of field values. A task with a positive
  \<open>worker_count\<close> and no \<open>worker_machine\<close> gets a job request whose worker block has
  \<open>workerType\<close> \<open>None\<close>, and it is not kept from staging or from the job service: when
  staging, the log message of \<open>submit\<close> and the create request do not raise, \<open>submit\<close>
  stages it and sends that request.
\<close>

theorem construction_checks_nothing:
  "TaskConfig_init m wc wm = Inr \<lparr>machine = m, worker_count = wc, worker_machine = wm\<rparr>
   \<and> Task_init n f c tc = Inr \<lparr>name = n, function' = f, config = c, task_config = tc\<rparr>
   \<and> (worker_count (task_config self) = Some k \<and> k > 0
        \<and> worker_machine (task_config self) = None \<longrightarrow>
      training_input (ai_platform_job_spec self) ''workerCount'' = Some (PInt k)
      \<and> training_input (ai_platform_job_spec self) ''workerType'' = Some PNone
      \<and> (import_cloudpickle env = None
           \<and> gcs_open_fault env (trace w) (inputs_uri self) ''wb'' = None
           \<and> snd (cloudpickle_dump env self) = None
           \<and> submitting_message_raises env self = None
           \<and> create_execute env (trace w @ [GcsOpen (inputs_uri self) ''wb''])
               (ai_platform_job_spec self) (''projects/'' @ project_name (config self)) = None
           \<longrightarrow>
         submit env self w =
           (Inr (),
            w\<lparr>gcs := (gcs w)(inputs_uri self \<mapsto> fst (cloudpickle_dump env self)),
              trace := trace w @ [GcsOpen (inputs_uri self) ''wb'',
                JobsCreate (ai_platform_job_spec self)
                  (''projects/'' @ project_name (config self))]\<rparr>)))"
proof (intro conjI impI)
  show "TaskConfig_init m wc wm = Inr \<lparr>machine = m, worker_count = wc, worker_machine = wm\<rparr>"
    by (simp add: TaskConfig_init_def)
  show "Task_init n f c tc = Inr \<lparr>name = n, function' = f, config = c, task_config = tc\<rparr>"
    by (simp add: Task_init_def)
next
  assume "worker_count (task_config self) = Some k \<and> k > 0
        \<and> worker_machine (task_config self) = None"
  then show "training_input (ai_platform_job_spec self) ''workerCount'' = Some (PInt k)"
    and "training_input (ai_platform_job_spec self) ''workerType'' = Some PNone"
    by (simp_all add: training_input_workerCount training_input_workerType)
next
  assume q: "import_cloudpickle env = None
           \<and> gcs_open_fault env (trace w) (inputs_uri self) ''wb'' = None
           \<and> snd (cloudpickle_dump env self) = None
           \<and> submitting_message_raises env self = None
           \<and> create_execute env (trace w @ [GcsOpen (inputs_uri self) ''wb''])
               (ai_platform_job_spec self) (''projects/'' @ project_name (config self)) = None"
  let ?w1 = "w\<lparr>gcs := (gcs w)(inputs_uri self \<mapsto> fst (cloudpickle_dump env self)),
               trace := trace w @ [GcsOpen (inputs_uri self) ''wb'']\<rparr>"
  have s: "stage env self w = (Inr (), ?w1)"
    using q by (cases "cloudpickle_dump env self") (simp add: stage_def emit_def Let_def)
  show "submit env self w =
           (Inr (),
            w\<lparr>gcs := (gcs w)(inputs_uri self \<mapsto> fst (cloudpickle_dump env self)),
              trace := trace w @ [GcsOpen (inputs_uri self) ''wb'',
                JobsCreate (ai_platform_job_spec self)
                  (''projects/'' @ project_name (config self))]\<rparr>)"
    using q by (simp add: submit_after_stage [OF s])
qed

theorem construction_checks_nothing_witness:
  "TaskConfig_init ''n1-standard-4'' (Some 2) None =
     Inr \<lparr>machine = ''n1-standard-4'', worker_count = Some 2, worker_machine = None\<rparr>
   \<and> worker_count (task_config unshaped_task) = Some 2
   \<and> worker_machine (task_config unshaped_task) = None
   \<and> submitting_message_raises (scripted_env []) unshaped_task = None
   \<and> training_input (ai_platform_job_spec unshaped_task) ''workerType'' = Some PNone
   \<and> submit (scripted_env []) unshaped_task empty_world =
       (Inr (),
        empty_world
          \<lparr>gcs := [''gs://proj/bionic/u1/t-inputs.cloudpickle'' \<mapsto> ''pickled:t''],
           trace := [GcsOpen ''gs://proj/bionic/u1/t-inputs.cloudpickle'' ''wb'',
                     JobsCreate (ai_platform_job_spec unshaped_task) ''projects/proj'']\<rparr>)"
proof -
  let ?u = "''gs://proj/bionic/u1/t-inputs.cloudpickle''"
  have uri: "inputs_uri unshaped_task = ?u"
    by (simp add: inputs_uri_def unshaped_task_def example_config_def)
  have proj: "project_name (config unshaped_task) = ''proj''"
    by (simp add: unshaped_task_def example_config_def)
  have wk: "worker_count (task_config unshaped_task) = Some 2 \<and> (2::int) > 0
      \<and> worker_machine (task_config unshaped_task) = None"
    by (simp add: unshaped_task_def)
  have msg: "submitting_message_raises (scripted_env []) unshaped_task = None"
    by (simp add: submitting_message_raises_def scripted_env_def)
  have quiet: "import_cloudpickle (scripted_env []) = None
      \<and> gcs_open_fault (scripted_env []) (trace empty_world) (inputs_uri unshaped_task) ''wb''
          = None
      \<and> snd (cloudpickle_dump (scripted_env []) unshaped_task) = None
      \<and> submitting_message_raises (scripted_env []) unshaped_task = None
      \<and> create_execute (scripted_env [])
          (trace empty_world @ [GcsOpen (inputs_uri unshaped_task) ''wb''])
          (ai_platform_job_spec unshaped_task)
          (''projects/'' @ project_name (config unshaped_task)) = None"
    using msg by (simp add: scripted_env_def)
  have dump: "fst (cloudpickle_dump (scripted_env []) unshaped_task) = ''pickled:t''"
    by (simp add: scripted_env_def unshaped_task_def)
  note inst = construction_checks_nothing
    [of "''n1-standard-4''" "Some 2" None "''t''" "()" example_config
        "\<lparr>machine = ''n1-standard-4'', worker_count = Some 2, worker_machine = None\<rparr>"
        unshaped_task 2 "scripted_env []" empty_world]
  have "TaskConfig_init ''n1-standard-4'' (Some 2) None =
     Inr \<lparr>machine = ''n1-standard-4'', worker_count = Some 2, worker_machine = None\<rparr>"
    using inst by blast
  moreover have "training_input (ai_platform_job_spec unshaped_task) ''workerType'' = Some PNone"
    using inst wk by blast
  moreover have "submit (scripted_env []) unshaped_task empty_world =
           (Inr (),
            empty_world\<lparr>gcs := (gcs empty_world)(inputs_uri unshaped_task \<mapsto>
                  fst (cloudpickle_dump (scripted_env []) unshaped_task)),
              trace := trace empty_world @ [GcsOpen (inputs_uri unshaped_task) ''wb'',
                JobsCreate (ai_platform_job_spec unshaped_task)
                  (''projects/'' @ project_name (config unshaped_task))]\<rparr>)"
    using inst wk quiet by blast
  ultimately show ?thesis
    using wk msg by (simp add: uri proj dump empty_world_def)
qed

text \<open>
  C8, as the spec states it, fails: constructing the configuration with two workers and
  no worker machine, and a task around it, raises nothing, and \<open>submit\<close> stages the task
  and sends its job request.
\<close>

theorem construction_counterexample:
  "TaskConfig_init ''n1-standard-4'' (Some 2) None =
     Inr \<lparr>machine = ''n1-standard-4'', worker_count = Some 2, worker_machine = None\<rparr>
   \<and> Task_init ''t'' () example_config
       \<lparr>machine = ''n1-standard-4'', worker_count = Some 2, worker_machine = None\<rparr>
     = Inr unshaped_task
   \<and> fst (submit (scripted_env []) unshaped_task empty_world) = Inr ()
   \<and> list_ex is_JobsCreate (trace (snd (submit (scripted_env []) unshaped_task empty_world)))"
  by (simp add: TaskConfig_init_def Task_init_def unshaped_task_def submit_def stage_def
        submitting_message_raises_def scripted_env_def empty_world_def emit_def Let_def)


section \<open>Cache entries\<close>

text \<open>
  C9. Two cache entries, as \<^verbatim>\<open>__init__\<close> builds them, are equal iff their metadata URLs
  are equal; entries with equal metadata URLs have the same hash, whatever their tier,
  descriptor or artifact URL; and \<^verbatim>\<open>__lt__\<close> is the order of the metadata URLs.
\<close>

theorem cache_entry_compares_metadata_url:
  "(CacheEntry_eq (CacheEntry_init c1 i1) (Entry (CacheEntry_init c2 i2)) \<longleftrightarrow>
      metadata_url (CacheEntry_init c1 i1) = metadata_url (CacheEntry_init c2 i2))
   \<and> (metadata_url (CacheEntry_init c1 i1) = metadata_url (CacheEntry_init c2 i2) \<longrightarrow>
      CacheEntry_hash b (CacheEntry_init c1 i1) = CacheEntry_hash b (CacheEntry_init c2 i2))
   \<and> CacheEntry_lt b (CacheEntry_init c1 i1) (Entry (CacheEntry_init c2 i2)) =
       Inr (LtBool
         (metadata_url (CacheEntry_init c1 i1) < metadata_url (CacheEntry_init c2 i2)))"
  by (simp add: CacheEntry_init_def CacheEntry_hash_def)

theorem cache_entry_compares_metadata_url_witness:
  "metadata_url (CacheEntry_init () item_a) = metadata_url (CacheEntry_init () item_a_cloud)
   \<and> tier (CacheEntry_init () item_a) \<noteq> tier (CacheEntry_init () item_a_cloud)
   \<and> artifact_url (CacheEntry_init () item_a) \<noteq> artifact_url (CacheEntry_init () item_a_cloud)
   \<and> entry_descriptor (CacheEntry_init () item_a)
       \<noteq> entry_descriptor (CacheEntry_init () item_a_cloud)
   \<and> CacheEntry_eq (CacheEntry_init () item_a)
       (Entry (CacheEntry_init () item_a_cloud) :: (unit, sample_value) pyobj)
   \<and> CacheEntry_hash plain_builtins (CacheEntry_init () item_a)
       = CacheEntry_hash plain_builtins (CacheEntry_init () item_a_cloud)
   \<and> \<not> CacheEntry_eq (CacheEntry_init () item_a)
       (Entry (CacheEntry_init () item_b) :: (unit, sample_value) pyobj)
   \<and> CacheEntry_lt plain_builtins (CacheEntry_init () item_a) (Entry (CacheEntry_init () item_b))
       = Inr (LtBool True)
   \<and> CacheEntry_lt plain_builtins (CacheEntry_init () item_b) (Entry (CacheEntry_init () item_a))
       = Inr (LtBool False)"
proof -
  have urls: "metadata_url (CacheEntry_init () item_a) = ''a''"
       "metadata_url (CacheEntry_init () item_a_cloud) = ''a''"
       "metadata_url (CacheEntry_init () item_b) = ''b''"
    by (simp_all add: CacheEntry_init_def item_a_def item_a_cloud_def item_b_def)
  have others: "tier (CacheEntry_init () item_a) \<noteq> tier (CacheEntry_init () item_a_cloud)
      \<and> artifact_url (CacheEntry_init () item_a) \<noteq> artifact_url (CacheEntry_init () item_a_cloud)
      \<and> entry_descriptor (CacheEntry_init () item_a)
          \<noteq> entry_descriptor (CacheEntry_init () item_a_cloud)"
    by (simp add: CacheEntry_init_def item_a_def item_a_cloud_def)
  have lt: "(''a'' :: string) < ''b''" "\<not> (''b'' :: string) < ''a''"
    by simp_all
  show ?thesis
    using cache_entry_compares_metadata_url [of "()" item_a "()" item_a_cloud plain_builtins]
          cache_entry_compares_metadata_url [of "()" item_a "()" item_b plain_builtins]
          cache_entry_compares_metadata_url [of "()" item_b "()" item_a plain_builtins]
          others lt
    unfolding urls
    by simp
qed




end
